theory Spec2Isabelle
  imports Complex_Main
begin

section \<open>JavaScript values\<close>

text \<open>
  The extension keeps everything in a key/value store whose values are dynamically typed:
  the sources test them with \<^verbatim>\<open>typeof x === 'string'\<close>, \<^verbatim>\<open>Array.isArray(x)\<close>,
  \<^verbatim>\<open>!x\<close> and \<^verbatim>\<open>x !== 'false'\<close>. The values are therefore modelled as JSON-like
  JavaScript values. \<open>JUndefined\<close> is what a read of an absent key or property yields.
\<close>

datatype jsval =
    JUndefined
  | JNull
  | JBool bool
  | JNum real
  | JStr string
  | JArr "jsval list"
  | JObj "(string \<times> jsval) list"

text \<open>\<^verbatim>\<open>!!v\<close>: the falsy values are undefined, null, false, 0 and the empty string.\<close>

fun truthy :: "jsval \<Rightarrow> bool" where
  "truthy JUndefined = False"
| "truthy JNull = False"
| "truthy (JBool b) = b"
| "truthy (JNum x) = (x \<noteq> 0)"
| "truthy (JStr s) = (s \<noteq> [])"
| "truthy (JArr _) = True"
| "truthy (JObj _) = True"

text \<open>
  \<^verbatim>\<open>a === b\<close>. Primitives compare by value. Arrays and objects compare by reference;
  every structured value in this model comes out of a fresh deserialisation, so two of
  them are never the same reference.
\<close>

fun strict_eq :: "jsval \<Rightarrow> jsval \<Rightarrow> bool" where
  "strict_eq JUndefined JUndefined = True"
| "strict_eq JNull JNull = True"
| "strict_eq (JBool a) (JBool b) = (a = b)"
| "strict_eq (JNum a) (JNum b) = (a = b)"
| "strict_eq (JStr a) (JStr b) = (a = b)"
| "strict_eq _ _ = False"

text \<open>
  \<^verbatim>\<open>v.name\<close> for a property name that is no built-in of strings, numbers or arrays
  (the sources read \<^verbatim>\<open>address\<close>, \<^verbatim>\<open>encryptedData\<close>, \<^verbatim>\<open>origin\<close>, \<^verbatim>\<open>txHash\<close>, ...).
  Reading a property of null or undefined raises a TypeError: \<open>None\<close>.
\<close>

fun getProp :: "jsval \<Rightarrow> string \<Rightarrow> jsval option" where
  "getProp JUndefined _ = None"
| "getProp JNull _ = None"
| "getProp (JObj kvs) name = (case map_of kvs name of None \<Rightarrow> Some JUndefined | Some v \<Rightarrow> Some v)"
| "getProp _ _ = Some JUndefined"

definition nullish :: "jsval \<Rightarrow> bool" where
  "nullish v = (v = JNull \<or> v = JUndefined)"

text \<open>\<^verbatim>\<open>v.name\<close> where \<^verbatim>\<open>v\<close> has been found not to be null or undefined.\<close>

definition readProp :: "jsval \<Rightarrow> string \<Rightarrow> jsval" where
  "readProp v name = (case getProp v name of None \<Rightarrow> JUndefined | Some x \<Rightarrow> x)"

text \<open>\<^verbatim>\<open>a || b\<close>\<close>

definition js_or :: "jsval \<Rightarrow> jsval \<Rightarrow> jsval" where
  "js_or a b = (if truthy a then a else b)"

datatype error = Error string | TypeError

section \<open>Shared Store\<close>

text \<open>
  Modelled from the spec: \<^verbatim>\<open>ExtensionStorageManager\<close> (utils/extensionStorage) is imported
  by the sources but not among them. The spec gives its contract:
  \<^verbatim>\<open>get(key) -> value|absent\<close>, \<^verbatim>\<open>set(key, value)\<close>, \<^verbatim>\<open>remove(key)\<close>, each an independent,
  immediately durable operation. A read of an absent key yields undefined.
\<close>

type_synonym store = "string \<rightharpoonup> jsval"

definition storage_get :: "store \<Rightarrow> string \<Rightarrow> jsval" where
  "storage_get s k = (case s k of None \<Rightarrow> JUndefined | Some v \<Rightarrow> v)"

definition storage_set :: "store \<Rightarrow> string \<Rightarrow> jsval \<Rightarrow> store" where
  "storage_set s k v = s(k \<mapsto> v)"

definition storage_remove :: "store \<Rightarrow> string \<Rightarrow> store" where
  "storage_remove s k = s(k := None)"

section \<open>External collaborators\<close>

text \<open>
  The functions the sources call but do not define are parameters of the model:
  the built-ins \<^verbatim>\<open>JSON.parse\<close> (\<open>None\<close>: it throws), \<^verbatim>\<open>JSON.stringify\<close> and
  \<^verbatim>\<open>decodeURIComponent\<close> (\<open>None\<close>: it throws), and \<^verbatim>\<open>verifyPassword\<close> and
  \<^verbatim>\<open>decryptWalletData\<close> of utils/password (\<open>Inl\<close>: the promise rejects).
\<close>

record env =
  JSON_parse :: "string \<Rightarrow> jsval option"
  JSON_stringify :: "jsval \<Rightarrow> string"
  decodeURIComponent :: "string \<Rightarrow> string option"
  verifyPassword :: "string \<Rightarrow> jsval \<Rightarrow> jsval \<Rightarrow> error + bool"
  decryptWalletData :: "jsval \<Rightarrow> string \<Rightarrow> error + string"

section \<open>WalletManager\<close>

text \<open>\<^verbatim>\<open>isWalletSetup\<close>: \<^verbatim>\<open>return !!hasPassword\<close>\<close>

definition isWalletSetup :: "store \<Rightarrow> bool" where
  "isWalletSetup s = truthy (storage_get s ''walletPasswordHash'')"

text \<open>
  \<^verbatim>\<open>shouldShowUnlockScreen\<close>:
  \<^verbatim>\<open>if (!hasPassword) return false; return isLocked !== 'false' || !hasWallets;\<close>
\<close>

definition shouldShowUnlockScreen :: "store \<Rightarrow> bool" where
  "shouldShowUnlockScreen s =
     (let hasPassword = storage_get s ''walletPasswordHash'';
          isLocked = storage_get s ''isWalletLocked'';
          hasWallets = storage_get s ''wallets''
      in if \<not> truthy hasPassword then False
         else \<not> strict_eq isLocked (JStr ''false'') \<or> \<not> truthy hasWallets)"

text \<open>
  \<^verbatim>\<open>isWalletLocked\<close>:
  \<^verbatim>\<open>if (!hasPassword) return false; return isLocked !== 'false';\<close>
\<close>

definition isWalletLocked :: "store \<Rightarrow> bool" where
  "isWalletLocked s =
     (let hasPassword = storage_get s ''walletPasswordHash'';
          isLocked = storage_get s ''isWalletLocked''
      in if \<not> truthy hasPassword then False
         else \<not> strict_eq isLocked (JStr ''false''))"

text \<open>
  The loop of \<^verbatim>\<open>unlockWallets\<close> over the stored records. Each record is decrypted and
  parsed inside its own try/catch; a failure is logged and the loop goes on. The handler
  logs \<^verbatim>\<open>encryptedWallet.address\<close>: on a null record that read throws again, out of the
  handler, and the enclosing try/catch ends the loop with what was decrypted so far.
\<close>

fun decryptEach :: "env \<Rightarrow> string \<Rightarrow> jsval list \<Rightarrow> jsval list \<Rightarrow> jsval list" where
  "decryptEach e password [] decryptedWallets = decryptedWallets"
| "decryptEach e password (encryptedWallet # rest) decryptedWallets =
     (case getProp encryptedWallet ''encryptedData'' of
        None \<Rightarrow> decryptedWallets
      | Some encryptedData \<Rightarrow>
          (case decryptWalletData e encryptedData password of
             Inl _ \<Rightarrow> decryptEach e password rest decryptedWallets
           | Inr decryptedData \<Rightarrow>
               (case JSON_parse e decryptedData of
                  None \<Rightarrow> decryptEach e password rest decryptedWallets
                | Some wallet \<Rightarrow> decryptEach e password rest (decryptedWallets @ [wallet]))))"

text \<open>
  \<^verbatim>\<open>for (const x of v)\<close>: an array yields its elements, a string its characters; any
  other value is not iterable (TypeError, \<open>None\<close>).
\<close>

fun iterate :: "jsval \<Rightarrow> jsval list option" where
  "iterate (JArr xs) = Some xs"
| "iterate (JStr s) = Some (map (\<lambda>c. JStr [c]) s)"
| "iterate _ = None"

text \<open>
  The "safe parsing" of the stored \<^verbatim>\<open>encryptedWallets\<close> entry: a string is parsed, an
  array is taken as it is, anything else throws \<^verbatim>\<open>Invalid encrypted wallets format\<close>.
  \<open>None\<close> stands for every exception the enclosing try/catch swallows.
\<close>

definition parseEncrypted :: "env \<Rightarrow> jsval \<Rightarrow> jsval list option" where
  "parseEncrypted e encryptedWallets =
     (case encryptedWallets of
        JStr str \<Rightarrow> (case JSON_parse e str of None \<Rightarrow> None | Some parsedEncrypted \<Rightarrow> iterate parsedEncrypted)
      | JArr xs \<Rightarrow> iterate (JArr xs)
      | _ \<Rightarrow> None)"

definition decryptStored :: "env \<Rightarrow> string \<Rightarrow> jsval \<Rightarrow> jsval list" where
  "decryptStored e password encryptedWallets =
     (if truthy encryptedWallets then
        (case parseEncrypted e encryptedWallets of
           None \<Rightarrow> []
         | Some parsedEncrypted \<Rightarrow> decryptEach e password parsedEncrypted [])
      else [])"

text \<open>
  \<^verbatim>\<open>unlockWallets(password)\<close>. The result pairs the store after the call with the
  promise's outcome: \<open>Inl\<close> an error it rejects with, \<open>Inr\<close> the decrypted wallets.
  The two writes of \<^verbatim>\<open>Promise.all\<close> go to different keys, so their order does not show.
\<close>

definition unlockWallets :: "env \<Rightarrow> string \<Rightarrow> store \<Rightarrow> store \<times> (error + jsval list)" where
  "unlockWallets e password s =
     (let hashedPassword = storage_get s ''walletPasswordHash'';
          salt = storage_get s ''walletPasswordSalt''
      in if \<not> truthy hashedPassword \<or> \<not> truthy salt then (s, Inl (Error ''No password set''))
         else
           (case verifyPassword e password hashedPassword salt of
              Inl err \<Rightarrow> (s, Inl err)
            | Inr isValid \<Rightarrow>
                if \<not> isValid then (s, Inl (Error ''Invalid password''))
                else
                  (let decryptedWallets = decryptStored e password (storage_get s ''encryptedWallets'');
                       s1 = storage_set s ''wallets'' (JStr (JSON_stringify e (JArr decryptedWallets)));
                       s2 = storage_set s1 ''isWalletLocked'' (JStr ''false'')
                   in if decryptedWallets \<noteq> [] then
                        (let activeWalletId = storage_get s2 ''activeWalletId''
                         in if \<not> truthy activeWalletId then
                              (case getProp (hd decryptedWallets) ''address'' of
                                 None \<Rightarrow> (s2, Inl TypeError)
                               | Some address \<Rightarrow>
                                   (storage_set s2 ''activeWalletId'' address, Inr decryptedWallets))
                            else (s2, Inr decryptedWallets))
                      else (s2, Inr decryptedWallets))))"

text \<open>\<^verbatim>\<open>lockWallets()\<close>: removes the wallet list and the active pointer, sets the flag.\<close>

definition lockWallets :: "store \<Rightarrow> store" where
  "lockWallets s =
     storage_set (storage_remove (storage_remove s ''wallets'') ''activeWalletId'')
       ''isWalletLocked'' (JStr ''true'')"

section \<open>PopupApp: the popup entry point\<close>

text \<open>
  What a surface renders, named after the component it mounts. \<open>ConnectionApproval\<close>
  is mounted by the tab entry point only.
\<close>

datatype screen =
    Loading
  | DAppConnection jsval
  | DAppRequestHandler jsval
  | ConnectionApproval jsval jsval
  | UnlockWallet
  | WelcomeScreen
  | WalletDashboard jsval

text \<open>
  The React state of \<^verbatim>\<open>PopupApp\<close>. \<^verbatim>\<open>isPopupMode\<close> is left out: it selects a CSS
  class and a prop of the dashboard and takes part in no decision modelled here.
\<close>

record popup_state =
  wallet :: jsval
  wallets :: jsval
  isLocked :: bool
  isLoading :: bool
  connectionRequest :: jsval
  contractRequest :: jsval

definition PopupApp_initial :: popup_state where
  "PopupApp_initial =
     \<lparr>wallet = JNull, wallets = JArr [], isLocked = False, isLoading = True,
      connectionRequest = JNull, contractRequest = JNull\<rparr>"

text \<open>
  The block \<^verbatim>\<open>loadInitialData\<close> runs twice, once per pending-request key: read the entry;
  if it is truthy, parse it when it is a string and take it as it is otherwise; if the
  parse throws, remove the entry and leave the request state at null.
\<close>

definition loadPending :: "env \<Rightarrow> store \<Rightarrow> string \<Rightarrow> store \<times> jsval" where
  "loadPending e s key =
     (let pendingRequest = storage_get s key
      in if truthy pendingRequest then
           (case pendingRequest of
              JStr str \<Rightarrow>
                (case JSON_parse e str of
                   None \<Rightarrow> (storage_remove s key, JNull)
                 | Some req \<Rightarrow> (s, req))
            | _ \<Rightarrow> (s, pendingRequest))
         else (s, JNull))"

text \<open>
  \<^verbatim>\<open>ws.find((w) => w.address === activeWalletId)\<close>: the first match, undefined when there
  is none, \<open>None\<close> when reading \<^verbatim>\<open>w.address\<close> throws on the way.
\<close>

fun find_by_address :: "jsval list \<Rightarrow> jsval \<Rightarrow> jsval option" where
  "find_by_address [] activeWalletId = Some JUndefined"
| "find_by_address (w # ws) activeWalletId =
     (case getProp w ''address'' of
        None \<Rightarrow> None
      | Some a \<Rightarrow> if strict_eq a activeWalletId then Some w else find_by_address ws activeWalletId)"

text \<open>
  The choice of the active wallet, written the same way in \<^verbatim>\<open>PopupApp\<close> and \<^verbatim>\<open>App\<close>:
  the first wallet, unless \<^verbatim>\<open>activeWalletId\<close> is truthy and a wallet with that address is
  found. \<open>None\<close>: the search threw.
\<close>

definition selectActive :: "jsval \<Rightarrow> jsval list \<Rightarrow> jsval \<Rightarrow> jsval option" where
  "selectActive first ws activeWalletId =
     (if truthy activeWalletId then
        (case find_by_address ws activeWalletId of
           None \<Rightarrow> None
         | Some foundWallet \<Rightarrow> Some (if truthy foundWallet then foundWallet else first))
      else Some first)"

text \<open>
  The wallet loading of \<^verbatim>\<open>loadInitialData\<close>: the pair \<^verbatim>\<open>(loadedWallets, activeWallet)\<close>
  as it stands after the inner try/catch.
\<close>

definition popup_loadWallets :: "env \<Rightarrow> jsval \<Rightarrow> jsval \<Rightarrow> jsval list \<times> jsval" where
  "popup_loadWallets e storedWallets activeWalletId =
     (if truthy storedWallets then
        (case (case storedWallets of JStr str \<Rightarrow> JSON_parse e str | _ \<Rightarrow> Some storedWallets) of
           None \<Rightarrow> ([], JNull)
         | Some parsedWallets \<Rightarrow>
             (case parsedWallets of
                JArr loadedWallets \<Rightarrow>
                  (case loadedWallets of
                     [] \<Rightarrow> ([], JNull)
                   | first # _ \<Rightarrow>
                       (case selectActive first loadedWallets activeWalletId of
                          None \<Rightarrow> (loadedWallets, first)
                        | Some activeWallet \<Rightarrow> (loadedWallets, activeWallet)))
              | _ \<Rightarrow> ([], JNull)))
      else ([], JNull))"

text \<open>
  \<^verbatim>\<open>loadInitialData\<close>, the mount effect of \<^verbatim>\<open>PopupApp\<close>: the store and the React state
  once it has run. The store of this model never fails, so \<^verbatim>\<open>ExtensionStorageManager.init()\<close>
  and the outer catch (which only logs) do not show.
\<close>

definition loadInitialData :: "env \<Rightarrow> store \<Rightarrow> store \<times> popup_state" where
  "loadInitialData e s =
     (let (s1, connectionReq) = loadPending e s ''pendingConnectionRequest'';
          (s2, contractReq) = loadPending e s1 ''pendingContractRequest'';
          st = PopupApp_initial\<lparr>connectionRequest := connectionReq, contractRequest := contractReq\<rparr>
      in if shouldShowUnlockScreen s2 then (s2, st\<lparr>isLocked := True, isLoading := False\<rparr>)
         else
           (let (loadedWallets, activeWallet) =
                  popup_loadWallets e (storage_get s2 ''wallets'') (storage_get s2 ''activeWalletId'')
            in (s2, st\<lparr>wallets := JArr loadedWallets, wallet := activeWallet,
                       isLocked := False, isLoading := False\<rparr>)))"

text \<open>\<^verbatim>\<open>handleUnlock\<close> of \<^verbatim>\<open>PopupApp\<close>.\<close>

definition PopupApp_handleUnlock :: "jsval list \<Rightarrow> popup_state \<Rightarrow> popup_state" where
  "PopupApp_handleUnlock unlockedWallets st =
     (let st1 = st\<lparr>wallets := JArr unlockedWallets, isLocked := False\<rparr>
      in case unlockedWallets of [] \<Rightarrow> st1 | first # _ \<Rightarrow> st1\<lparr>wallet := first\<rparr>)"

text \<open>The chain of returns that ends \<^verbatim>\<open>PopupApp\<close>.\<close>

definition PopupApp_render :: "popup_state \<Rightarrow> screen" where
  "PopupApp_render st =
     (if isLoading st then Loading
      else if truthy (connectionRequest st) then DAppConnection (connectionRequest st)
      else if truthy (contractRequest st) then DAppRequestHandler (contractRequest st)
      else if isLocked st then UnlockWallet
      else if \<not> truthy (wallet st) then WelcomeScreen
      else WalletDashboard (wallet st))"

section \<open>App: the tab entry point\<close>

text \<open>The React state of \<^verbatim>\<open>App\<close>.\<close>

record app_state =
  tab_wallet :: jsval
  tab_wallets :: jsval
  tab_isLocked :: bool
  tab_connectionRequest :: jsval

definition App_initial :: app_state where
  "App_initial =
     \<lparr>tab_wallet = JNull, tab_wallets = JArr [], tab_isLocked = False, tab_connectionRequest = JNull\<rparr>"

text \<open>
  \<^verbatim>\<open>localStorage\<close> and the URL's query hold strings; \<^verbatim>\<open>getItem\<close> and \<^verbatim>\<open>get\<close> yield null
  for an absent key.
\<close>

type_synonym strings = "string \<rightharpoonup> string"

definition getItem :: "strings \<Rightarrow> string \<Rightarrow> jsval" where
  "getItem m k = (case m k of None \<Rightarrow> JNull | Some v \<Rightarrow> JStr v)"

text \<open>
  The first effect of \<^verbatim>\<open>App\<close>: a connection request carried by the URL. Neither
  \<^verbatim>\<open>decodeURIComponent\<close> nor \<^verbatim>\<open>JSON.parse\<close> stands in a try/catch here: \<open>None\<close> is the
  exception leaving the effect.
\<close>

definition App_urlEffect :: "env \<Rightarrow> strings \<Rightarrow> app_state \<Rightarrow> app_state option" where
  "App_urlEffect e urlParams st =
     (if urlParams ''action'' = Some ''connect'' then
        (let origin = getItem urlParams ''origin'';
             appName = getItem urlParams ''appName'';
             appIcon = getItem urlParams ''appIcon'';
             permissions = getItem urlParams ''permissions''
         in case (origin, permissions) of
              (JStr originStr, JStr permissionsStr) \<Rightarrow>
                if originStr \<noteq> [] \<and> permissionsStr \<noteq> [] then
                  (case decodeURIComponent e originStr of
                     None \<Rightarrow> None
                   | Some o' \<Rightarrow>
                  (case decodeURIComponent e (case appName of JStr n \<Rightarrow> n | _ \<Rightarrow> []) of
                     None \<Rightarrow> None
                   | Some n' \<Rightarrow>
                  (case decodeURIComponent e (case appIcon of JStr i \<Rightarrow> i | _ \<Rightarrow> []) of
                     None \<Rightarrow> None
                   | Some i' \<Rightarrow>
                  (case decodeURIComponent e permissionsStr of
                     None \<Rightarrow> None
                   | Some p' \<Rightarrow>
                  (case JSON_parse e p' of
                     None \<Rightarrow> None
                   | Some perms \<Rightarrow>
                       Some (st\<lparr>tab_connectionRequest :=
                               JObj [(''origin'', JStr o'), (''appName'', JStr n'),
                                     (''appIcon'', JStr i'), (''permissions'', perms)]\<rparr>))))))
                else Some st
            | _ \<Rightarrow> Some st)
      else Some st)"

text \<open>
  \<^verbatim>\<open>checkWalletStatus\<close>, the third effect of \<^verbatim>\<open>App\<close>, all of it inside one try/catch.
  The source types the parsed \<^verbatim>\<open>wallets\<close> entry as \<^verbatim>\<open>Wallet[]\<close>. On an array the model
  follows it statement by statement; on null, \<^verbatim>\<open>.length\<close> throws after \<^verbatim>\<open>setWallets\<close>;
  on a non-empty string \<^verbatim>\<open>[0]\<close> is its first character and \<^verbatim>\<open>.find\<close> is no function;
  numbers, booleans and objects have no \<^verbatim>\<open>length\<close> (a JSON object that carries a key
  of that name is outside the model).
\<close>

definition checkWalletStatus :: "env \<Rightarrow> strings \<Rightarrow> app_state \<Rightarrow> app_state" where
  "checkWalletStatus e localStorage st =
     (let walletLocked = getItem localStorage ''isWalletLocked'';
          hasPassword = getItem localStorage ''walletPasswordHash''
      in if truthy hasPassword \<and> \<not> strict_eq walletLocked (JStr ''false'') then st\<lparr>tab_isLocked := True\<rparr>
         else
           (let storedWallets = getItem localStorage ''wallets'';
                activeWalletId = getItem localStorage ''activeWalletId''
            in case storedWallets of
                 JStr str \<Rightarrow>
                   if str \<noteq> [] then
                     (case JSON_parse e str of
                        None \<Rightarrow> st
                      | Some parsedWallets \<Rightarrow>
                          (let st1 = st\<lparr>tab_wallets := parsedWallets\<rparr>
                           in case parsedWallets of
                                JArr (first # rest) \<Rightarrow>
                                  (case selectActive first (first # rest) activeWalletId of
                                     None \<Rightarrow> st1
                                   | Some activeWallet \<Rightarrow> st1\<lparr>tab_wallet := activeWallet\<rparr>)
                              | JStr (c # cs) \<Rightarrow>
                                  (if truthy activeWalletId then st1 else st1\<lparr>tab_wallet := JStr [c]\<rparr>)
                              | _ \<Rightarrow> st1))
                   else st
               | _ \<Rightarrow> st))"

text \<open>
  The state of \<^verbatim>\<open>App\<close> once its mount effects have run, in their order: the URL effect,
  then \<^verbatim>\<open>checkWalletStatus\<close> (the effect between them registers the storage listener and
  changes no state). No effect reads \<^verbatim>\<open>pendingConnectionRequest\<close> or
  \<^verbatim>\<open>pendingContractRequest\<close>.
\<close>

definition App_mount :: "env \<Rightarrow> strings \<Rightarrow> strings \<Rightarrow> app_state option" where
  "App_mount e urlParams localStorage =
     map_option (checkWalletStatus e localStorage) (App_urlEffect e urlParams App_initial)"

text \<open>
  \<^verbatim>\<open>handleUnlock\<close> of \<^verbatim>\<open>App\<close>. An exception of the search leaves the handler after the
  first two updates.
\<close>

definition App_handleUnlock :: "strings \<Rightarrow> jsval list \<Rightarrow> app_state \<Rightarrow> app_state" where
  "App_handleUnlock localStorage unlockedWallets st =
     (let st1 = st\<lparr>tab_wallets := JArr unlockedWallets, tab_isLocked := False\<rparr>
      in case unlockedWallets of
           [] \<Rightarrow> st1
         | first # _ \<Rightarrow>
             (case selectActive first unlockedWallets (getItem localStorage ''activeWalletId'') of
                None \<Rightarrow> st1
              | Some activeWallet \<Rightarrow> st1\<lparr>tab_wallet := activeWallet\<rparr>))"

text \<open>The chain of returns that ends \<^verbatim>\<open>App\<close>.\<close>

definition App_render :: "app_state \<Rightarrow> screen" where
  "App_render st =
     (if truthy (tab_connectionRequest st) \<and> truthy (tab_wallet st) \<and> \<not> tab_isLocked st
        then ConnectionApproval (tab_connectionRequest st) (tab_wallet st)
      else if tab_isLocked st then UnlockWallet
      else if \<not> truthy (tab_wallet st) then WelcomeScreen
      else WalletDashboard (tab_wallet st))"

text \<open>
  \<^verbatim>\<open>openExpandedView\<close> of \<^verbatim>\<open>PopupApp\<close>, the \<^verbatim>\<open>onExpandedView\<close> handler of the dashboard:
  with \<^verbatim>\<open>chrome.tabs\<close> at hand it creates a tab on \<^verbatim>\<open>index.html\<close>, with no query.
  The result lists the URLs handed to \<^verbatim>\<open>chrome.tabs.create\<close>.
\<close>

definition openExpandedView :: "bool \<Rightarrow> (string \<times> strings) list" where
  "openExpandedView chrome_tabs = (if chrome_tabs then [(''index.html'', Map.empty)] else [])"

section \<open>OctraSDK: the in-page bridge\<close>

text \<open>
  The provider (\<^verbatim>\<open>window.octra\<close>) is injected by the extension; the SDK only calls it.
  Each of its methods is a parameter: \<open>Inr\<close> the value the promise resolves with,
  \<open>Inl\<close> the \<^verbatim>\<open>message\<close> of the error it rejects with (empty when it has none).
\<close>

record provider =
  callContractMethod :: "jsval \<Rightarrow> jsval \<Rightarrow> string \<Rightarrow> jsval \<Rightarrow> jsval \<Rightarrow> string + jsval"
  provider_sendTransaction :: "jsval \<Rightarrow> string + jsval"
  provider_getBalance :: "jsval \<Rightarrow> string + jsval"
  provider_signMessage :: "jsval \<Rightarrow> string + jsval"
  provider_getNetwork :: "string + jsval"

text \<open>What the SDK sent to the provider, in order.\<close>

datatype provider_call =
    CallContractMethod jsval jsval string jsval jsval
  | SendTransaction jsval
  | GetBalance jsval
  | SignMessage jsval
  | GetNetwork

record sdk =
  connectedAddress :: jsval
  isConnected :: bool
  provider :: "provider option"

text \<open>How a call ends (\<open>Inl\<close>: the promise rejects) and what it sent to the provider.\<close>

type_synonym sdk_result = "(error + jsval) \<times> provider_call list"

text \<open>
  The message of the TypeError an engine raises on \<^verbatim>\<open>null.f(...)\<close> or \<^verbatim>\<open>null.p\<close>; its
  wording is the engine's, all the SDK needs of it is that it is not empty.
\<close>

definition typeErrorMessage :: string where
  "typeErrorMessage = ''Cannot read properties of null''"

text \<open>\<^verbatim>\<open>throw new Error(error.message || fallback)\<close>\<close>

definition rethrow :: "string \<Rightarrow> string \<Rightarrow> error" where
  "rethrow message fallback = Error (if message \<noteq> [] then message else fallback)"

text \<open>A destructured option with a default: the default stands in for undefined.\<close>

definition withDefault :: "jsval \<Rightarrow> jsval \<Rightarrow> jsval" where
  "withDefault v d = (if v = JUndefined then d else v)"

definition notConnected :: error where
  "notConnected = Error ''Not connected to wallet. Please connect first.''"

text \<open>\<^verbatim>\<open>viewCall(options)\<close>\<close>

definition viewCall :: "sdk \<Rightarrow> jsval \<Rightarrow> sdk_result" where
  "viewCall this options =
     (if \<not> isConnected this then (Inl notConnected, [])
      else
        (if nullish options then (Inl TypeError, [])
         else
             (let contractAddress = readProp options ''contractAddress'';
                  methodName = readProp options ''methodName'';
                  params = withDefault (readProp options ''params'') (JArr []);
                  description = withDefault (readProp options ''description'') JNull
              in if \<not> truthy contractAddress \<or> \<not> truthy methodName
                   then (Inl (Error ''contractAddress and methodName are required''), [])
                 else
                   (case provider this of
                      None \<Rightarrow> (Inl (rethrow typeErrorMessage ''View call failed''), [])
                    | Some p \<Rightarrow>
                        (let opts = JObj [(''description'', description)];
                             sent = [CallContractMethod contractAddress methodName ''view'' params opts]
                         in case callContractMethod p contractAddress methodName ''view'' params opts of
                              Inl message \<Rightarrow> (Inl (rethrow message ''View call failed''), sent)
                            | Inr result \<Rightarrow>
                                (Inr (JObj [(''success'', JBool True), (''result'', result),
                                            (''type'', JStr ''view'')]), sent))))))"

text \<open>
  \<^verbatim>\<open>callContract(options)\<close>. The default \<^verbatim>\<open>gasPrice = 0.001\<close> is the number the literal
  denotes.
\<close>

definition callContract :: "sdk \<Rightarrow> jsval \<Rightarrow> sdk_result" where
  "callContract this options =
     (if \<not> isConnected this then (Inl notConnected, [])
      else
        (if nullish options then (Inl TypeError, [])
         else
             (let contractAddress = readProp options ''contractAddress'';
                  methodName = readProp options ''methodName'';
                  params = withDefault (readProp options ''params'') (JArr []);
                  value = withDefault (readProp options ''value'') (JStr ''0'');
                  gasLimit = withDefault (readProp options ''gasLimit'') (JNum 100000);
                  gasPrice = withDefault (readProp options ''gasPrice'') (JNum (1 / 1000));
                  description = withDefault (readProp options ''description'') JNull
              in if \<not> truthy contractAddress \<or> \<not> truthy methodName
                   then (Inl (Error ''contractAddress and methodName are required''), [])
                 else
                   (case provider this of
                      None \<Rightarrow> (Inl (rethrow typeErrorMessage ''Contract call failed''), [])
                    | Some p \<Rightarrow>
                        (let opts = JObj [(''value'', value), (''gasLimit'', gasLimit),
                                          (''gasPrice'', gasPrice), (''description'', description)];
                             sent = [CallContractMethod contractAddress methodName ''call'' params opts]
                         in case callContractMethod p contractAddress methodName ''call'' params opts of
                              Inl message \<Rightarrow> (Inl (rethrow message ''Contract call failed''), sent)
                            | Inr result \<Rightarrow>
                                if nullish result
                                  then (Inl (rethrow typeErrorMessage ''Contract call failed''), sent)
                                else
                                  (Inr (JObj [(''success'', JBool True),
                                              (''txHash'', js_or (readProp result ''txHash'') (readProp result ''hash'')),
                                              (''type'', JStr ''call'')]), sent))))))"

text \<open>\<^verbatim>\<open>sendTransaction(options)\<close>\<close>

definition sendTransaction :: "sdk \<Rightarrow> jsval \<Rightarrow> sdk_result" where
  "sendTransaction this options =
     (if \<not> isConnected this then (Inl notConnected, [])
      else
        (if nullish options then (Inl TypeError, [])
         else
             (let to = readProp options ''to'';
                  amount = readProp options ''amount'';
                  message = withDefault (readProp options ''message'') JNull
              in if \<not> truthy to \<or> \<not> truthy amount then (Inl (Error ''to and amount are required''), [])
                 else
                   (case provider this of
                      None \<Rightarrow> (Inl (rethrow typeErrorMessage ''Transaction failed''), [])
                    | Some p \<Rightarrow>
                        (let tx = JObj [(''to'', to), (''amount'', amount), (''message'', message)];
                             sent = [SendTransaction tx]
                         in case provider_sendTransaction p tx of
                              Inl msg \<Rightarrow> (Inl (rethrow msg ''Transaction failed''), sent)
                            | Inr result \<Rightarrow>
                                if nullish result
                                  then (Inl (rethrow typeErrorMessage ''Transaction failed''), sent)
                                else
                                  (Inr (JObj [(''success'', JBool True),
                                              (''txHash'', js_or (readProp result ''hash'') (readProp result ''txHash''))]),
                                   sent))))))"

text \<open>\<^verbatim>\<open>getBalance(address = null)\<close>\<close>

definition getBalance :: "sdk \<Rightarrow> jsval \<Rightarrow> sdk_result" where
  "getBalance this address0 =
     (if \<not> isConnected this then (Inl notConnected, [])
      else
        (let address = withDefault address0 JNull
         in case provider this of
              None \<Rightarrow> (Inl (rethrow typeErrorMessage ''Failed to get balance''), [])
            | Some p \<Rightarrow>
                (let arg = js_or address (connectedAddress this);
                     sent = [GetBalance arg]
                 in case provider_getBalance p arg of
                      Inl msg \<Rightarrow> (Inl (rethrow msg ''Failed to get balance''), sent)
                    | Inr result \<Rightarrow>
                        if nullish result
                          then (Inl (rethrow typeErrorMessage ''Failed to get balance''), sent)
                        else (Inr (js_or (readProp result ''balance'') result), sent))))"

text \<open>\<^verbatim>\<open>signMessage(message)\<close>\<close>

definition signMessage :: "sdk \<Rightarrow> jsval \<Rightarrow> sdk_result" where
  "signMessage this message =
     (if \<not> isConnected this then (Inl notConnected, [])
      else
        (case provider this of
           None \<Rightarrow> (Inl (rethrow typeErrorMessage ''Failed to sign message''), [])
         | Some p \<Rightarrow>
             (let sent = [SignMessage message]
              in case provider_signMessage p message of
                   Inl msg \<Rightarrow> (Inl (rethrow msg ''Failed to sign message''), sent)
                 | Inr result \<Rightarrow>
                     if nullish result
                       then (Inl (rethrow typeErrorMessage ''Failed to sign message''), sent)
                     else (Inr (js_or (readProp result ''signature'') result), sent))))"

definition defaultNetwork :: jsval where
  "defaultNetwork =
     JObj [(''chainId'', JStr ''0x1''), (''networkId'', JStr ''octra-mainnet''),
           (''name'', JStr ''Octra Network'')]"

text \<open>
  \<^verbatim>\<open>getNetwork()\<close>: the provider's answer when there is a provider and its call
  succeeds; the catch only warns, and the fixed object is returned after it.
\<close>

definition getNetwork :: "sdk \<Rightarrow> sdk_result" where
  "getNetwork this =
     (case provider this of
        None \<Rightarrow> (Inr defaultNetwork, [])
      | Some p \<Rightarrow>
          (case provider_getNetwork p of
             Inl _ \<Rightarrow> (Inr defaultNetwork, [GetNetwork])
           | Inr network \<Rightarrow> (Inr network, [GetNetwork])))"

section \<open>Request Registry\<close>

text \<open>
  Modelled from the spec: the Request Registry lives in the background script, which is
  not among the sources (they only read and remove its two store entries). The spec,
  section 4.3: \<^verbatim>\<open>submit(kind, payload) -> id\<close> fails with \<^verbatim>\<open>RequestConflict\<close> if a request
  of \<^verbatim>\<open>kind\<close> is already pending and otherwise persists the new request keyed by kind;
  \<^verbatim>\<open>peek(kind)\<close> is a pure read; \<^verbatim>\<open>resolve(id, outcome)\<close> clears the entry and is a no-op
  if it is already cleared. Section 3: each request carries a unique id.
\<close>

datatype request_kind = Connection | Contract

record pending_request =
  req_id :: nat
  req_kind :: request_kind
  req_payload :: jsval

record registry =
  pending :: "pending_request list"
  next_id :: nat

datatype registry_error = RequestConflict

datatype decision = Approved | Rejected | Abandoned

definition registry_empty :: registry where
  "registry_empty = \<lparr>pending = [], next_id = 0\<rparr>"

definition peek :: "registry \<Rightarrow> request_kind \<Rightarrow> pending_request option" where
  "peek r kind = find (\<lambda>q. req_kind q = kind) (pending r)"

definition submit :: "registry \<Rightarrow> request_kind \<Rightarrow> jsval \<Rightarrow> registry \<times> (registry_error + nat)" where
  "submit r kind payload =
     (case peek r kind of
        Some _ \<Rightarrow> (r, Inl RequestConflict)
      | None \<Rightarrow>
          (r\<lparr>pending := pending r @ [\<lparr>req_id = next_id r, req_kind = kind, req_payload = payload\<rparr>],
              next_id := Suc (next_id r)\<rparr>,
           Inr (next_id r)))"

definition resolve :: "registry \<Rightarrow> nat \<Rightarrow> decision \<Rightarrow> registry" where
  "resolve r i outcome = r\<lparr>pending := filter (\<lambda>q. req_id q \<noteq> i) (pending r)\<rparr>"

text \<open>The Registry states the operations can produce, starting from the empty one.\<close>

inductive reachable :: "registry \<Rightarrow> bool" where
  reachable_empty: "reachable registry_empty"
| reachable_submit: "reachable r \<Longrightarrow> reachable (fst (submit r kind payload))"
| reachable_resolve: "reachable r \<Longrightarrow> reachable (resolve r i outcome)"

section \<open>Surface Policy\<close>

text \<open>
  Modelled from the spec: the Surface Policy lives in the background script, which is
  not among the sources; of the code that opens a surface they hold \<^verbatim>\<open>openExpandedView\<close>
  alone. The spec, section 4.4: a static mapping from request kind to surface type, in
  which every request kind (connection, view-call, state-changing-call) has the popup
  surface; \<^verbatim>\<open>openSurface(kind)\<close> looks up this table and invokes the host's
  window-creation primitive accordingly; a kind it does not recognize is a
  \<^verbatim>\<open>PolicyError\<close>, not a fallback to the tab.
\<close>

datatype surface = Popup | Tab

datatype policy_error = PolicyError

text \<open>A call of the host's window-creation primitive.\<close>

datatype host_call = CreateWindow surface

definition surfacePolicy :: "(string \<times> surface) list" where
  "surfacePolicy =
     [(''connection'', Popup), (''view-call'', Popup), (''state-changing-call'', Popup)]"

definition openSurface :: "string \<Rightarrow> policy_error + host_call" where
  "openSurface kind =
     (case map_of surfacePolicy kind of
        None \<Rightarrow> Inl PolicyError
      | Some s \<Rightarrow> Inr (CreateWindow s))"

text \<open>
  What makes the extension open a surface: a page's request of some kind, which goes
  through \<^verbatim>\<open>openSurface\<close>, or the user's "expand view", which goes through
  \<^verbatim>\<open>openExpandedView\<close> of the source and opens a tab for each URL it creates.
  \<open>surfacesOpened\<close> runs a sequence of such events and pairs every window it creates
  with the event that caused it.
\<close>

datatype event = PageRequest string | ExpandView

definition handleEvent :: "bool \<Rightarrow> event \<Rightarrow> host_call list" where
  "handleEvent chrome_tabs ev =
     (case ev of
        PageRequest kind \<Rightarrow> (case openSurface kind of Inl _ \<Rightarrow> [] | Inr c \<Rightarrow> [c])
      | ExpandView \<Rightarrow> map (\<lambda>url. CreateWindow Tab) (openExpandedView chrome_tabs))"

fun surfacesOpened :: "bool \<Rightarrow> event list \<Rightarrow> (event \<times> host_call) list" where
  "surfacesOpened chrome_tabs [] = []"
| "surfacesOpened chrome_tabs (ev # evs) =
     map (Pair ev) (handleEvent chrome_tabs ev) @ surfacesOpened chrome_tabs evs"

section \<open>The unlock batch, record by record\<close>

text \<open>
  What unlocking is meant to do with one stored record, taken alone: decrypt its
  \<^verbatim>\<open>encryptedData\<close>, parse the text, and yield the wallet, or nothing when either step
  fails. \<open>survivors\<close> keeps, in their order, the wallets of the records that yield one;
  \<open>decryptEach\<close>, the loop of the source, is compared with it below.
\<close>

definition decryptOne :: "env \<Rightarrow> string \<Rightarrow> jsval \<Rightarrow> jsval option" where
  "decryptOne e password r =
     (case getProp r ''encryptedData'' of
        None \<Rightarrow> None
      | Some encryptedData \<Rightarrow>
          (case decryptWalletData e encryptedData password of
             Inl _ \<Rightarrow> None
           | Inr decryptedData \<Rightarrow> JSON_parse e decryptedData))"

definition survivors :: "env \<Rightarrow> string \<Rightarrow> jsval list \<Rightarrow> jsval list" where
  "survivors e password recs = List.map_filter (decryptOne e password) recs"

section \<open>Example inputs\<close>

text \<open>
  A concrete environment for the examples. \<open>demo_parse\<close> and \<open>demo_stringify\<close> agree
  with \<^verbatim>\<open>JSON.parse\<close> and \<^verbatim>\<open>JSON.stringify\<close> on the texts and values the examples use;
  every other text is taken not to parse. The password is \<^verbatim>\<open>hunter2\<close>; under it
  \<^verbatim>\<open>enc1\<close> and \<^verbatim>\<open>enc2\<close> decrypt to the two wallets and \<^verbatim>\<open>encnull\<close> to the text
  \<^verbatim>\<open>null\<close>, and nothing else decrypts.
\<close>

definition demo_wallet :: jsval where
  "demo_wallet = JObj [(''address'', JStr ''oct1demo'')]"

definition demo_wallet2 :: jsval where
  "demo_wallet2 = JObj [(''address'', JStr ''oct1two'')]"

definition demo_encrypted :: jsval where
  "demo_encrypted =
     JArr [JObj [(''address'', JStr ''oct1demo''), (''encryptedData'', JStr ''enc1'')],
           JObj [(''address'', JStr ''oct1lost''), (''encryptedData'', JStr ''garbage'')]]"

definition demo_contract_request :: jsval where
  "demo_contract_request =
     JObj [(''origin'', JStr ''https://dapp.example''), (''contractAddress'', JStr ''oct1contract''),
           (''methodName'', JStr ''claimToken''), (''kind'', JStr ''call''), (''params'', JArr [])]"

definition demo_contract_text :: string where
  \<open>demo_contract_text =
     ''{"origin":"https://dapp.example","contractAddress":"oct1contract","methodName":"claimToken","kind":"call","params":[]}''\<close>

definition demo_encrypted_text :: string where
  \<open>demo_encrypted_text =
     ''[{"address":"oct1demo","encryptedData":"enc1"},{"address":"oct1lost","encryptedData":"garbage"}]''\<close>

text \<open>Three stored records, the second of them null.\<close>

definition null_records :: "jsval list" where
  "null_records =
     [JObj [(''address'', JStr ''oct1demo''), (''encryptedData'', JStr ''enc1'')],
      JNull,
      JObj [(''address'', JStr ''oct1two''), (''encryptedData'', JStr ''enc2'')]]"

definition null_records_text :: string where
  \<open>null_records_text =
     ''[{"address":"oct1demo","encryptedData":"enc1"},null,{"address":"oct1two","encryptedData":"enc2"}]''\<close>

text \<open>One stored record, whose plaintext is \<^verbatim>\<open>null\<close>.\<close>

definition null_wallet_records :: "jsval list" where
  "null_wallet_records =
     [JObj [(''address'', JStr ''oct1nil''), (''encryptedData'', JStr ''encnull'')]]"

definition null_wallet_text :: string where
  \<open>null_wallet_text = ''[{"address":"oct1nil","encryptedData":"encnull"}]''\<close>

definition demo_parse :: "string \<Rightarrow> jsval option" where
  \<open>demo_parse str =
     (if str = ''[]'' then Some (JArr [])
      else if str = ''null'' then Some JNull
      else if str = ''{"address":"oct1demo"}'' then Some demo_wallet
      else if str = ''{"address":"oct1two"}'' then Some demo_wallet2
      else if str = ''[{"address":"oct1demo"}]'' then Some (JArr [demo_wallet])
      else if str = ''["view_address"]'' then Some (JArr [JStr ''view_address''])
      else if str = demo_contract_text then Some demo_contract_request
      else if str = demo_encrypted_text then Some demo_encrypted
      else if str = null_records_text then Some (JArr null_records)
      else if str = null_wallet_text then Some (JArr null_wallet_records)
      else None)\<close>

definition demo_stringify :: "jsval \<Rightarrow> string" where
  \<open>demo_stringify v =
     (if v = JArr [demo_wallet] then ''[{"address":"oct1demo"}]''
      else if v = JArr [demo_wallet, demo_wallet2] then ''[{"address":"oct1demo"},{"address":"oct1two"}]''
      else if v = JArr [JNull] then ''[null]''
      else if v = JArr [] then ''[]''
      else ''null'')\<close>

definition demo_decrypt :: "jsval \<Rightarrow> string \<Rightarrow> error + string" where
  \<open>demo_decrypt encryptedData password =
     (if encryptedData = JStr ''enc1'' \<and> password = ''hunter2'' then Inr ''{"address":"oct1demo"}''
      else if encryptedData = JStr ''enc2'' \<and> password = ''hunter2'' then Inr ''{"address":"oct1two"}''
      else if encryptedData = JStr ''encnull'' \<and> password = ''hunter2'' then Inr ''null''
      else Inl (Error ''Decryption failed''))\<close>

definition demo_env :: env where
  "demo_env =
     \<lparr>JSON_parse = demo_parse, JSON_stringify = demo_stringify, decodeURIComponent = Some,
      verifyPassword = (\<lambda>password hashedPassword salt. Inr (password = ''hunter2'')),
      decryptWalletData = demo_decrypt\<rparr>"

text \<open>A fresh install; a locked wallet; the same wallet unlocked.\<close>

definition fresh_store :: store where
  "fresh_store = Map.empty"

definition locked_store :: store where
  "locked_store =
     [''walletPasswordHash'' \<mapsto> JStr ''hash'', ''walletPasswordSalt'' \<mapsto> JStr ''salt'',
      ''encryptedWallets'' \<mapsto> JStr demo_encrypted_text, ''isWalletLocked'' \<mapsto> JStr ''true'']"

definition unlocked_store :: store where
  "unlocked_store =
     locked_store(''wallets'' \<mapsto> JStr (demo_stringify (JArr [demo_wallet])),
                  ''isWalletLocked'' \<mapsto> JStr ''false'',
                  ''activeWalletId'' \<mapsto> JStr ''oct1demo'')"

text \<open>
  The first of the two unlock writes has landed, the second not yet: the flag says
  unlocked and there is no wallet list.
\<close>

definition half_unlocked_store :: store where
  "half_unlocked_store = locked_store(''isWalletLocked'' \<mapsto> JStr ''false'')"

text \<open>Unlocked, with no wallet left: the list is there and empty.\<close>

definition emptied_store :: store where
  "emptied_store =
     [''walletPasswordHash'' \<mapsto> JStr ''hash'', ''walletPasswordSalt'' \<mapsto> JStr ''salt'',
      ''wallets'' \<mapsto> JStr ''[]'', ''isWalletLocked'' \<mapsto> JStr ''false'']"

text \<open>The same states as \<^verbatim>\<open>localStorage\<close> holds them for the tab.\<close>

definition locked_localStorage :: strings where
  "locked_localStorage =
     [''walletPasswordHash'' \<mapsto> ''hash'', ''walletPasswordSalt'' \<mapsto> ''salt'',
      ''encryptedWallets'' \<mapsto> demo_encrypted_text, ''isWalletLocked'' \<mapsto> ''true'',
      ''pendingContractRequest'' \<mapsto> demo_contract_text]"

definition unlocked_localStorage :: strings where
  "unlocked_localStorage =
     locked_localStorage(''wallets'' \<mapsto> demo_stringify (JArr [demo_wallet]),
                         ''isWalletLocked'' \<mapsto> ''false'',
                         ''activeWalletId'' \<mapsto> ''oct1demo'')"

text \<open>The locked wallet with each of the two lists above as its stored records.\<close>

definition null_record_store :: store where
  "null_record_store = locked_store(''encryptedWallets'' \<mapsto> JStr null_records_text)"

definition null_wallet_store :: store where
  "null_wallet_store = locked_store(''encryptedWallets'' \<mapsto> JStr null_wallet_text)"

text \<open>A provider whose every call fails, and an SDK that has not connected to it.\<close>

definition failing_provider :: provider where
  "failing_provider =
     \<lparr>callContractMethod = (\<lambda>contractAddress methodName kind params opts. Inl ''unreachable''),
      provider_sendTransaction = (\<lambda>tx. Inl ''unreachable''),
      provider_getBalance = (\<lambda>address. Inl ''unreachable''),
      provider_signMessage = (\<lambda>message. Inl ''unreachable''),
      provider_getNetwork = Inl ''unreachable''\<rparr>"

definition new_sdk :: sdk where
  "new_sdk = \<lparr>connectedAddress = JNull, isConnected = False, provider = Some failing_provider\<rparr>"

text \<open>A locked wallet with a contract request waiting, as the popup's store holds it.\<close>

definition pending_locked_store :: store where
  "pending_locked_store = locked_store(''pendingContractRequest'' \<mapsto> JStr demo_contract_text)"

text \<open>An unlocked wallet with a truncated contract request, and one with an empty connection request.\<close>

definition corrupted_store :: store where
  \<open>corrupted_store = unlocked_store(''pendingContractRequest'' \<mapsto> JStr ''{"origin":'')\<close>

definition blank_store :: store where
  "blank_store = unlocked_store(''pendingConnectionRequest'' \<mapsto> JStr [])"

text \<open>A Registry with one contract request pending.\<close>

definition one_pending :: registry where
  "one_pending = fst (submit registry_empty Contract demo_contract_request)"

section \<open>Auxiliary facts\<close>

text \<open>
  What \<^verbatim>\<open>loadInitialData\<close> does after its two reads of pending requests, as a function
  of the store they leave and the requests they found.
\<close>

definition afterPending :: "env \<Rightarrow> store \<Rightarrow> jsval \<Rightarrow> jsval \<Rightarrow> popup_state" where
  "afterPending e s2 connectionReq contractReq =
     (let st = PopupApp_initial\<lparr>connectionRequest := connectionReq, contractRequest := contractReq\<rparr>
      in if shouldShowUnlockScreen s2 then st\<lparr>isLocked := True, isLoading := False\<rparr>
         else
           (let (loadedWallets, activeWallet) =
                  popup_loadWallets e (storage_get s2 ''wallets'') (storage_get s2 ''activeWalletId'')
            in st\<lparr>wallets := JArr loadedWallets, wallet := activeWallet,
                       isLocked := False, isLoading := False\<rparr>))"

lemma loadInitialData_split:
  "loadInitialData e s =
     (let (s1, connectionReq) = loadPending e s ''pendingConnectionRequest'';
          (s2, contractReq) = loadPending e s1 ''pendingContractRequest''
      in (s2, afterPending e s2 connectionReq contractReq))"
  by (simp add: loadInitialData_def afterPending_def Let_def split: prod.splits)

lemma strict_eq_JStr: "strict_eq v (JStr t) = (v = JStr t)"
  by (cases v) auto

lemma getProp_not_nullish: "\<not> nullish r \<Longrightarrow> \<exists>v. getProp r n = Some v"
  by (cases r) (auto simp: nullish_def split: option.splits)

lemma demo_env_sel:
  "JSON_parse demo_env = demo_parse" "JSON_stringify demo_env = demo_stringify"
  "decodeURIComponent demo_env = Some"
  "verifyPassword demo_env = (\<lambda>password hashedPassword salt. Inr (password = ''hunter2''))"
  "decryptWalletData demo_env = demo_decrypt"
  by (simp_all add: demo_env_def)

lemmas demo_simps = demo_env_sel demo_parse_def demo_stringify_def demo_decrypt_def
  demo_encrypted_def demo_contract_text_def demo_encrypted_text_def
  null_records_text_def null_wallet_text_def

lemmas store_simps = storage_get_def storage_set_def storage_remove_def
  fresh_store_def locked_store_def unlocked_store_def half_unlocked_store_def emptied_store_def

section \<open>The wallet-access gate\<close>

text \<open>
  C4. \<^verbatim>\<open>shouldShowUnlockScreen\<close> (the spec's \<^verbatim>\<open>shouldGate\<close>) is true exactly when setup is
  complete (\<^verbatim>\<open>isWalletSetup\<close>: a password hash is recorded) and either the lock flag is
  not the string \<^verbatim>\<open>'false'\<close> or the decrypted wallet list is not present. For every
  store with no recorded password hash it is false.
\<close>

theorem shouldShowUnlockScreen_iff:
  "(shouldShowUnlockScreen s \<longleftrightarrow>
      isWalletSetup s \<and>
      (storage_get s ''isWalletLocked'' \<noteq> JStr ''false'' \<or> \<not> truthy (storage_get s ''wallets'')))
   \<and> (s ''walletPasswordHash'' = None \<longrightarrow> \<not> shouldShowUnlockScreen s)"
  by (simp add: shouldShowUnlockScreen_def isWalletSetup_def storage_get_def Let_def strict_eq_JStr)

theorem shouldShowUnlockScreen_iff_witness:
  "shouldShowUnlockScreen locked_store \<and> shouldShowUnlockScreen half_unlocked_store
   \<and> \<not> shouldShowUnlockScreen unlocked_store \<and> \<not> shouldShowUnlockScreen fresh_store"
  using shouldShowUnlockScreen_iff[of locked_store] shouldShowUnlockScreen_iff[of half_unlocked_store]
    shouldShowUnlockScreen_iff[of unlocked_store] shouldShowUnlockScreen_iff[of fresh_store]
  by (simp add: store_simps isWalletSetup_def demo_stringify_def)

text \<open>
  C7, as the code has it. With a password recorded, \<^verbatim>\<open>isWalletLocked\<close> reports locked
  exactly when the flag is anything but \<^verbatim>\<open>'false'\<close>, and never looks at the wallet list;
  \<^verbatim>\<open>shouldShowUnlockScreen\<close> reports locked in those states and also when the wallet
  list entry is absent or empty-valued. So a missing flag is read as locked by both, and
  a missing wallet list by \<^verbatim>\<open>shouldShowUnlockScreen\<close> only. With no password recorded
  neither reports locked.
\<close>

theorem lock_readers:
  "(isWalletLocked s \<longleftrightarrow> isWalletSetup s \<and> storage_get s ''isWalletLocked'' \<noteq> JStr ''false'')
   \<and> (shouldShowUnlockScreen s \<longleftrightarrow>
        isWalletLocked s \<or> (isWalletSetup s \<and> \<not> truthy (storage_get s ''wallets'')))
   \<and> (isWalletSetup s \<and> (s ''isWalletLocked'' = None \<or> s ''wallets'' = None)
        \<longrightarrow> shouldShowUnlockScreen s)"
  by (auto simp add: shouldShowUnlockScreen_def isWalletLocked_def isWalletSetup_def storage_get_def
      Let_def strict_eq_JStr)

theorem lock_readers_witness:
  "isWalletLocked locked_store \<and> shouldShowUnlockScreen locked_store
   \<and> shouldShowUnlockScreen half_unlocked_store \<and> \<not> isWalletLocked unlocked_store"
  using lock_readers[of locked_store] lock_readers[of half_unlocked_store] lock_readers[of unlocked_store]
  by (simp add: store_simps isWalletSetup_def)

text \<open>
  C7, as the spec states it, fails twice. In \<open>half_unlocked_store\<close> the flag says
  unlocked and the wallet list is absent, and \<^verbatim>\<open>isWalletLocked\<close> answers "not locked".
  In \<open>emptied_store\<close> the wallet list is present and empty, and both readers answer
  "not locked".
\<close>

theorem lock_readers_counterexample:
  "isWalletSetup half_unlocked_store \<and> half_unlocked_store ''wallets'' = None
   \<and> isWalletLocked half_unlocked_store = False
   \<and> isWalletSetup emptied_store \<and> storage_get emptied_store ''wallets'' = JStr ''[]''
   \<and> shouldShowUnlockScreen emptied_store = False \<and> isWalletLocked emptied_store = False"
  by (simp add: store_simps isWalletSetup_def isWalletLocked_def shouldShowUnlockScreen_def)

section \<open>Unlocking\<close>

text \<open>
  C5. \<^verbatim>\<open>unlockWallets\<close> rejects with \<^verbatim>\<open>No password set\<close> when the password hash or the
  salt is missing, and with \<^verbatim>\<open>Invalid password\<close> when the password does not verify
  (the spec's \<^verbatim>\<open>AuthError\<close>); in both cases the store it leaves is the store it found,
  so the lock flag and the wallet list are as before.
\<close>

theorem unlockWallets_rejects_unchanged:
  "(\<not> truthy (storage_get s ''walletPasswordHash'') \<or> \<not> truthy (storage_get s ''walletPasswordSalt'')
      \<longrightarrow> unlockWallets e password s = (s, Inl (Error ''No password set'')))
   \<and> (truthy (storage_get s ''walletPasswordHash'') \<and> truthy (storage_get s ''walletPasswordSalt'')
      \<and> verifyPassword e password (storage_get s ''walletPasswordHash'') (storage_get s ''walletPasswordSalt'') = Inr False
      \<longrightarrow> unlockWallets e password s = (s, Inl (Error ''Invalid password'')))"
  by (auto simp add: unlockWallets_def Let_def)

theorem unlockWallets_rejects_unchanged_witness:
  "unlockWallets demo_env ''hunter2'' fresh_store = (fresh_store, Inl (Error ''No password set''))
   \<and> unlockWallets demo_env ''letmein'' locked_store = (locked_store, Inl (Error ''Invalid password''))"
  using unlockWallets_rejects_unchanged[of fresh_store demo_env "''hunter2''"]
    unlockWallets_rejects_unchanged[of locked_store demo_env "''letmein''"]
  by (simp add: store_simps demo_env_sel)

text \<open>The loop of the source computes the survivors, whatever it started with.\<close>

lemma decryptEach_survivors:
  "\<forall>r\<in>set recs. \<not> nullish r \<Longrightarrow>
   decryptEach e pw recs acc = acc @ survivors e pw recs"
proof (induction recs arbitrary: acc)
  case Nil
  then show ?case by (simp add: survivors_def)
next
  case (Cons r recs)
  from Cons.prems have "\<not> nullish r" by simp
  then obtain d where d: "getProp r ''encryptedData'' = Some d"
    using getProp_not_nullish by blast
  from Cons.prems have rest: "\<forall>r\<in>set recs. \<not> nullish r" by simp
  show ?case
    using Cons.IH[OF rest] d
    by (simp add: survivors_def decryptOne_def split: sum.splits option.splits)
qed

text \<open>
  The stored entry is an array, or a text that parses to one: \<^verbatim>\<open>unlockWallets\<close> then
  works on the elements of that array.
\<close>

lemma decryptStored_array:
  assumes "\<forall>r\<in>set recs. \<not> nullish r"
  shows "decryptStored e pw (JArr recs) = survivors e pw recs"
  using decryptEach_survivors[OF assms, of e pw "[]"]
  by (simp add: decryptStored_def parseEncrypted_def)

lemma decryptStored_text:
  assumes "str \<noteq> []" and "JSON_parse e str = Some (JArr recs)" and "\<forall>r\<in>set recs. \<not> nullish r"
  shows "decryptStored e pw (JStr str) = survivors e pw recs"
  using decryptEach_survivors[OF assms(3), of e pw "[]"] assms(1,2)
  by (simp add: decryptStored_def parseEncrypted_def)

text \<open>
  Where the loop and the record-by-record reading agree. When the password verifies, the
  stored records are objects and so is the first decrypted wallet: the call resolves with
  the survivors,
  every record decrypted on its own and the failing ones dropped; the survivors
  (serialised) and the flag \<^verbatim>\<open>'false'\<close> are written; a missing active-wallet pointer
  becomes the address of the first survivor, and a pointer that is there is kept.
\<close>

lemma unlockWallets_resolves:
  assumes hash: "truthy (storage_get s ''walletPasswordHash'')"
    and salt: "truthy (storage_get s ''walletPasswordSalt'')"
    and valid: "verifyPassword e password (storage_get s ''walletPasswordHash'')
                  (storage_get s ''walletPasswordSalt'') = Inr True"
    and entry: "storage_get s ''encryptedWallets'' = JArr recs
                \<or> (\<exists>str. storage_get s ''encryptedWallets'' = JStr str \<and> str \<noteq> []
                      \<and> JSON_parse e str = Some (JArr recs))"
    and recs: "\<forall>r\<in>set recs. \<not> nullish r"
    and ws: "ws = survivors e password recs"
    and first: "ws \<noteq> [] \<longrightarrow> \<not> nullish (hd ws)"
    and s': "s' = fst (unlockWallets e password s)"
  shows "snd (unlockWallets e password s) = Inr ws
     \<and> storage_get s' ''wallets'' = JStr (JSON_stringify e (JArr ws))
     \<and> storage_get s' ''isWalletLocked'' = JStr ''false''
     \<and> (\<not> truthy (storage_get s ''activeWalletId'') \<and> ws \<noteq> []
          \<longrightarrow> getProp (hd ws) ''address'' = Some (storage_get s' ''activeWalletId''))
     \<and> (truthy (storage_get s ''activeWalletId'') \<or> ws = []
          \<longrightarrow> s' ''activeWalletId'' = s ''activeWalletId'')"
proof -
  have dec: "decryptStored e password (storage_get s ''encryptedWallets'') = ws"
    using entry decryptStored_array[OF recs] decryptStored_text[OF _ _ recs] ws by auto
  show ?thesis
  proof (cases "ws = []")
    case True
    with hash salt valid dec s' show ?thesis
      by (simp add: unlockWallets_def Let_def storage_get_def storage_set_def)
  next
    case False
    with first obtain a where a: "getProp (hd ws) ''address'' = Some a"
      using getProp_not_nullish by blast
    with False hash salt valid dec s' show ?thesis
      by (simp add: unlockWallets_def Let_def storage_get_def storage_set_def)
  qed
qed

text \<open>
  The locked example holds two records; the second does not decrypt. Unlocking yields
  the first wallet alone and makes it the active one.
\<close>

lemma unlockWallets_example:
  "unlockWallets demo_env ''hunter2'' locked_store =
     (locked_store(''wallets'' \<mapsto> JStr (demo_stringify (JArr [demo_wallet])),
                   ''isWalletLocked'' \<mapsto> JStr ''false'',
                   ''activeWalletId'' \<mapsto> JStr ''oct1demo''),
      Inr [demo_wallet])"
  by (simp add: unlockWallets_def decryptStored_def parseEncrypted_def store_simps demo_simps
      demo_wallet_def Let_def)

text \<open>
  C6, where the code departs from it. The example holds three records, the second of
  them null. Taken one by one, the first and the third decrypt: two survivors. The loop
  of \<^verbatim>\<open>unlockWallets\<close> stops at the null record and the call resolves with the first
  wallet alone, which is also all it writes; the third record is never tried. And when
  the first decrypted wallet is null, the call writes the list and the flag and then
  rejects, with no active-wallet pointer set.
\<close>

theorem unlockWallets_null_record:
  "storage_get null_record_store ''encryptedWallets'' = JStr null_records_text
   \<and> JSON_parse demo_env null_records_text = Some (JArr null_records)
   \<and> survivors demo_env ''hunter2'' null_records = [demo_wallet, demo_wallet2]
   \<and> snd (unlockWallets demo_env ''hunter2'' null_record_store) = Inr [demo_wallet]
   \<and> storage_get (fst (unlockWallets demo_env ''hunter2'' null_record_store)) ''wallets''
       = JStr (demo_stringify (JArr [demo_wallet]))
   \<and> survivors demo_env ''hunter2'' null_wallet_records = [JNull]
   \<and> snd (unlockWallets demo_env ''hunter2'' null_wallet_store) = Inl TypeError
   \<and> storage_get (fst (unlockWallets demo_env ''hunter2'' null_wallet_store)) ''isWalletLocked''
       = JStr ''false''
   \<and> fst (unlockWallets demo_env ''hunter2'' null_wallet_store) ''activeWalletId'' = None"
  by (simp add: unlockWallets_def decryptStored_def parseEncrypted_def survivors_def decryptOne_def
      null_record_store_def null_wallet_store_def null_records_def null_wallet_records_def
      store_simps demo_simps demo_wallet_def demo_wallet2_def Let_def)

theorem unlockWallets_null_record_witness:
  "snd (unlockWallets demo_env ''hunter2'' null_record_store)
     \<noteq> Inr (survivors demo_env ''hunter2'' null_records)"
  using unlockWallets_null_record by simp

text \<open>Locking gates a wallet that was set up, and locking twice is locking once.\<close>

lemma lockWallets_gates:
  "(isWalletSetup s \<longrightarrow> shouldShowUnlockScreen (lockWallets s))
   \<and> lockWallets (lockWallets s) = lockWallets s"
  by (auto simp add: lockWallets_def shouldShowUnlockScreen_def isWalletSetup_def storage_get_def
      storage_set_def storage_remove_def Let_def)

section \<open>The bridge\<close>

text \<open>
  C8. While the SDK is not connected, \<^verbatim>\<open>viewCall\<close>, \<^verbatim>\<open>callContract\<close>, \<^verbatim>\<open>sendTransaction\<close>,
  \<^verbatim>\<open>getBalance\<close> and \<^verbatim>\<open>signMessage\<close> each reject with the error
  \<^verbatim>\<open>Not connected to wallet. Please connect first.\<close> and send nothing to the provider.
\<close>

theorem not_connected_fails_fast:
  "\<not> isConnected this \<Longrightarrow>
     viewCall this options = (Inl (Error ''Not connected to wallet. Please connect first.''), [])
   \<and> callContract this options = (Inl (Error ''Not connected to wallet. Please connect first.''), [])
   \<and> sendTransaction this options = (Inl (Error ''Not connected to wallet. Please connect first.''), [])
   \<and> getBalance this address = (Inl (Error ''Not connected to wallet. Please connect first.''), [])
   \<and> signMessage this message = (Inl (Error ''Not connected to wallet. Please connect first.''), [])"
  by (simp add: viewCall_def callContract_def sendTransaction_def getBalance_def signMessage_def
      notConnected_def)

theorem not_connected_fails_fast_witness:
  "viewCall new_sdk demo_contract_request = (Inl (Error ''Not connected to wallet. Please connect first.''), [])
   \<and> signMessage new_sdk (JStr ''hello'') = (Inl (Error ''Not connected to wallet. Please connect first.''), [])"
  using not_connected_fails_fast[of new_sdk demo_contract_request JNull "JStr ''hello''"]
  by (simp add: new_sdk_def)

text \<open>
  C10. \<^verbatim>\<open>getNetwork\<close> always resolves. With no provider, and with a provider whose
  \<^verbatim>\<open>getNetwork\<close> fails, it resolves with the fixed object
  \<^verbatim>\<open>{chainId: '0x1', networkId: 'octra-mainnet', name: 'Octra Network'}\<close>.
\<close>

theorem getNetwork_never_rejects:
  "(\<exists>network. fst (getNetwork this) = Inr network)
   \<and> (provider this = None \<longrightarrow>
        getNetwork this =
          (Inr (JObj [(''chainId'', JStr ''0x1''), (''networkId'', JStr ''octra-mainnet''),
                      (''name'', JStr ''Octra Network'')]), []))
   \<and> (\<forall>p message. provider this = Some p \<and> provider_getNetwork p = Inl message \<longrightarrow>
        fst (getNetwork this) =
          Inr (JObj [(''chainId'', JStr ''0x1''), (''networkId'', JStr ''octra-mainnet''),
                     (''name'', JStr ''Octra Network'')]))"
  by (auto simp add: getNetwork_def defaultNetwork_def split: option.splits sum.splits)

theorem getNetwork_never_rejects_witness:
  "fst (getNetwork new_sdk) =
     Inr (JObj [(''chainId'', JStr ''0x1''), (''networkId'', JStr ''octra-mainnet''),
                (''name'', JStr ''Octra Network'')])
   \<and> fst (getNetwork (new_sdk\<lparr>provider := None\<rparr>)) =
     Inr (JObj [(''chainId'', JStr ''0x1''), (''networkId'', JStr ''octra-mainnet''),
                (''name'', JStr ''Octra Network'')])"
  using getNetwork_never_rejects[of new_sdk] getNetwork_never_rejects[of "new_sdk\<lparr>provider := None\<rparr>"]
  by (simp add: new_sdk_def failing_provider_def)

section \<open>The Request Registry\<close>

lemma peek_None: "peek r kind = None \<longleftrightarrow> filter (\<lambda>q. req_kind q = kind) (pending r) = []"
  by (auto simp add: peek_def find_None_iff filter_empty_conv)

lemma submit_one_per_kind:
  assumes "length (filter (\<lambda>q. req_kind q = k) (pending r)) \<le> 1"
  shows "length (filter (\<lambda>q. req_kind q = k) (pending (fst (submit r kind payload)))) \<le> 1"
proof (cases "peek r kind")
  case None
  then show ?thesis using assms peek_None[of r kind]
    by (cases "k = kind") (auto simp add: submit_def)
next
  case (Some q)
  then show ?thesis using assms by (simp add: submit_def)
qed

lemma resolve_one_per_kind:
  assumes "length (filter (\<lambda>q. req_kind q = k) (pending r)) \<le> 1"
  shows "length (filter (\<lambda>q. req_kind q = k) (pending (resolve r i outcome))) \<le> 1"
proof -
  have "length (filter (\<lambda>q. req_kind q = k) (filter (\<lambda>q. req_id q \<noteq> i) xs))
        \<le> length (filter (\<lambda>q. req_kind q = k) xs)" for xs
    by (induction xs) auto
  from this[of "pending r"] show ?thesis using assms by (simp add: resolve_def)
qed

lemma reachable_one_per_kind:
  "reachable r \<Longrightarrow> length (filter (\<lambda>q. req_kind q = k) (pending r)) \<le> 1"
proof (induction rule: reachable.induct)
  case reachable_empty
  then show ?case by (simp add: registry_empty_def)
next
  case (reachable_submit r kind payload)
  from reachable_submit.IH show ?case by (rule submit_one_per_kind)
next
  case (reachable_resolve r i outcome)
  from reachable_resolve.IH show ?case by (rule resolve_one_per_kind)
qed

text \<open>
  C3. In every state the Registry can reach, at most one request of a kind is pending;
  and when one is, a further \<^verbatim>\<open>submit\<close> of that kind fails with \<^verbatim>\<open>RequestConflict\<close> and
  returns the Registry as it was, the pending request still in place.
\<close>

theorem submit_conflict:
  assumes "reachable r"
  shows "length (filter (\<lambda>q. req_kind q = kind) (pending r)) \<le> 1
     \<and> (\<forall>q. peek r kind = Some q \<longrightarrow>
          submit r kind payload = (r, Inl RequestConflict)
          \<and> peek (fst (submit r kind payload)) kind = Some q)"
  using reachable_one_per_kind[OF assms] by (auto simp add: submit_def)

theorem submit_conflict_witness:
  "peek one_pending Contract = Some \<lparr>req_id = 0, req_kind = Contract, req_payload = demo_contract_request\<rparr>
   \<and> submit one_pending Contract JNull = (one_pending, Inl RequestConflict)
   \<and> length (filter (\<lambda>q. req_kind q = Contract) (pending one_pending)) \<le> 1"
proof -
  have r: "reachable one_pending"
    unfolding one_pending_def by (rule reachable_submit) (rule reachable_empty)
  have p: "peek one_pending Contract =
      Some \<lparr>req_id = 0, req_kind = Contract, req_payload = demo_contract_request\<rparr>"
    by (simp add: one_pending_def submit_def peek_def registry_empty_def)
  from submit_conflict[OF r, of Contract JNull] p show ?thesis by simp
qed

section \<open>The Surface Policy\<close>

lemma handleEvent_tab:
  "CreateWindow Tab \<in> set (handleEvent chrome_tabs ev) \<Longrightarrow> ev = ExpandView"
  by (cases ev) (auto simp add: handleEvent_def openSurface_def surfacePolicy_def
      split: sum.splits option.splits if_splits)

text \<open>
  C1. For each of the three request kinds \<^verbatim>\<open>openSurface\<close> creates the popup window, and
  for no kind at all, recognized or not, the tab. Over any sequence of page requests
  and "expand view" actions, every page request of one of the three kinds opens one
  window, the popup, and every tab that is opened was opened by an "expand view".
\<close>

theorem openSurface_popup:
  "(kind \<in> {''connection'', ''view-call'', ''state-changing-call''}
      \<longrightarrow> openSurface kind = Inr (CreateWindow Popup)
          \<and> handleEvent chrome_tabs (PageRequest kind) = [CreateWindow Popup])
   \<and> openSurface kind \<noteq> Inr (CreateWindow Tab)
   \<and> (\<forall>ev. (ev, CreateWindow Tab) \<in> set (surfacesOpened chrome_tabs evs) \<longrightarrow> ev = ExpandView)"
proof -
  have tabs: "(ev, CreateWindow Tab) \<in> set (surfacesOpened chrome_tabs evs) \<Longrightarrow> ev = ExpandView" for ev
  proof (induction evs)
    case Nil
    then show ?case by simp
  next
    case (Cons a evs)
    then show ?case using handleEvent_tab[of chrome_tabs a] by auto
  qed
  show ?thesis
    using tabs
    by (auto simp add: openSurface_def surfacePolicy_def handleEvent_def split: option.splits if_splits)
qed

theorem openSurface_popup_witness:
  "openSurface ''state-changing-call'' = Inr (CreateWindow Popup)
   \<and> openSurface ''unheard-of'' = Inl PolicyError
   \<and> surfacesOpened True [PageRequest ''connection'', ExpandView, PageRequest ''view-call'']
       = [(PageRequest ''connection'', CreateWindow Popup), (ExpandView, CreateWindow Tab),
          (PageRequest ''view-call'', CreateWindow Popup)]"
  using openSurface_popup[of "''state-changing-call''" True "[]"]
  by (simp add: openSurface_def surfacePolicy_def handleEvent_def openExpandedView_def)

section \<open>What the surfaces render\<close>

lemmas tab_simps = App_mount_def App_urlEffect_def checkWalletStatus_def App_initial_def
  App_render_def App_handleUnlock_def getItem_def selectActive_def
  locked_localStorage_def unlocked_localStorage_def

text \<open>
  The order of the popup's screens, read off the store: a pending connection request,
  then a pending contract request, whatever the lock state; then the unlock screen
  when \<^verbatim>\<open>shouldShowUnlockScreen\<close> holds; then the welcome screen when no wallet is
  active; then the dashboard.
\<close>

lemma loadInitialData_render:
  "PopupApp_render (snd (loadInitialData e s)) =
     (let (s1, connectionReq) = loadPending e s ''pendingConnectionRequest'';
          (s2, contractReq) = loadPending e s1 ''pendingContractRequest''
      in if truthy connectionReq then DAppConnection connectionReq
         else if truthy contractReq then DAppRequestHandler contractReq
         else if shouldShowUnlockScreen s2 then UnlockWallet
         else if \<not> truthy (wallet (snd (loadInitialData e s))) then WelcomeScreen
         else WalletDashboard (wallet (snd (loadInitialData e s))))"
  by (simp add: loadInitialData_def PopupApp_render_def PopupApp_initial_def Let_def split: prod.splits)

text \<open>
  C2, where the code departs from it. The tab never mounts the contract-approval screen,
  whatever its state. With a locked wallet and a contract request pending it shows the
  unlock screen, and after a successful unlock the dashboard; the popup, on the same
  wallet and request, shows the contract-approval screen before and after the unlock.
\<close>

theorem tab_shows_dashboard_after_unlock:
  "(\<forall>st r. App_render st \<noteq> DAppRequestHandler r)
   \<and> map_option App_render (App_mount demo_env Map.empty locked_localStorage) = Some UnlockWallet
   \<and> map_option (\<lambda>st. App_render (App_handleUnlock unlocked_localStorage [demo_wallet] st))
        (App_mount demo_env Map.empty locked_localStorage) = Some (WalletDashboard demo_wallet)
   \<and> PopupApp_render (snd (loadInitialData demo_env pending_locked_store))
     = DAppRequestHandler demo_contract_request
   \<and> PopupApp_render (PopupApp_handleUnlock [demo_wallet] (snd (loadInitialData demo_env pending_locked_store)))
     = DAppRequestHandler demo_contract_request"
  by (simp add: tab_simps demo_simps demo_wallet_def Let_def
      loadInitialData_def loadPending_def pending_locked_store_def store_simps
      PopupApp_render_def PopupApp_handleUnlock_def PopupApp_initial_def shouldShowUnlockScreen_def
      demo_contract_request_def)

section \<open>A pending request that does not parse\<close>

lemma loadPending_corrupted:
  "s k = Some (JStr str) \<Longrightarrow> str \<noteq> [] \<Longrightarrow> JSON_parse e str = None \<Longrightarrow>
   loadPending e s k = (s(k := None), JNull)"
  by (simp add: loadPending_def storage_get_def storage_remove_def)

lemma loadPending_absent: "s k = None \<Longrightarrow> loadPending e s k = (s, JNull)"
  by (simp add: loadPending_def storage_get_def)

lemma loadPending_empty: "s k = Some (JStr []) \<Longrightarrow> loadPending e s k = (s, JNull)"
  by (simp add: loadPending_def storage_get_def)

lemma loadPending_other:
  "k \<noteq> k' \<Longrightarrow>
   loadPending e (s(k := None)) k' = ((fst (loadPending e s k'))(k := None), snd (loadPending e s k'))"
  by (auto simp add: loadPending_def storage_get_def storage_remove_def Let_def
      split: option.splits jsval.splits)

lemma loadPending_keeps:
  "k \<noteq> k' \<Longrightarrow> fst (loadPending e s k') k = s k"
  by (auto simp add: loadPending_def storage_get_def storage_remove_def Let_def
      split: option.splits jsval.splits)

lemma afterPending_frame:
  "k = ''pendingConnectionRequest'' \<or> k = ''pendingContractRequest'' \<Longrightarrow>
   afterPending e (s(k := None)) c d = afterPending e s c d"
  by (auto simp add: afterPending_def shouldShowUnlockScreen_def storage_get_def Let_def)

text \<open>
  C9, as the code has it. When the entry under either pending-request key is a string
  that does not parse, the popup ends in the state it would reach with the entry absent;
  when that string is not empty the entry is also removed from the store, and the whole
  mount is the mount on the store without it. An empty string counts as no entry: it is
  never parsed and stays in the store.
\<close>

theorem corrupted_pending_request:
  assumes k: "k = ''pendingConnectionRequest'' \<or> k = ''pendingContractRequest''"
    and entry: "s k = Some (JStr str)"
    and bad: "JSON_parse e str = None"
  shows "snd (loadInitialData e s) = snd (loadInitialData e (s(k := None)))
     \<and> (str \<noteq> [] \<longrightarrow> loadInitialData e s = loadInitialData e (s(k := None))
                     \<and> fst (loadInitialData e s) k = None)
     \<and> (str = [] \<longrightarrow> fst (loadInitialData e s) k = Some (JStr []))"
proof (cases "str = []")
  case True
  from k show ?thesis
  proof
    assume kc: "k = ''pendingConnectionRequest''"
    with entry True have a: "loadPending e s ''pendingConnectionRequest'' = (s, JNull)"
      by (simp add: loadPending_empty)
    have b: "loadPending e (s(k := None)) ''pendingConnectionRequest'' = (s(k := None), JNull)"
      using kc by (simp add: loadPending_absent)
    obtain s2 d where q: "loadPending e s ''pendingContractRequest'' = (s2, d)"
      by (cases "loadPending e s ''pendingContractRequest''")
    have c: "loadPending e (s(k := None)) ''pendingContractRequest'' = (s2(k := None), d)"
      using loadPending_other[of k "''pendingContractRequest''" e s] q kc by simp
    have d: "s2 k = s k"
      using loadPending_keeps[of k "''pendingContractRequest''" e s] q kc by simp
    show ?thesis
      using True a b c d q entry k
      by (simp add: loadInitialData_split afterPending_frame)
  next
    assume kc: "k = ''pendingContractRequest''"
    obtain s1 c where p: "loadPending e s ''pendingConnectionRequest'' = (s1, c)"
      by (cases "loadPending e s ''pendingConnectionRequest''")
    have s1k: "s1 k = Some (JStr [])"
      using loadPending_keeps[of k "''pendingConnectionRequest''" e s] p kc entry True by simp
    have a: "loadPending e (s(k := None)) ''pendingConnectionRequest'' = (s1(k := None), c)"
      using loadPending_other[of k "''pendingConnectionRequest''" e s] p kc by simp
    have b: "loadPending e s1 k = (s1, JNull)"
      using s1k by (rule loadPending_empty)
    have b': "loadPending e (s1(k := None)) k = (s1(k := None), JNull)"
      by (simp add: loadPending_absent)
    show ?thesis
      using True p a b b' s1k k kc
      by (simp add: loadInitialData_split afterPending_frame)
  qed
next
  case False
  from k show ?thesis
  proof
    assume kc: "k = ''pendingConnectionRequest''"
    have a: "loadPending e s ''pendingConnectionRequest'' = (s(k := None), JNull)"
      using loadPending_corrupted[of s k str e, OF entry False bad] kc by simp
    have b: "loadPending e (s(k := None)) ''pendingConnectionRequest'' = (s(k := None), JNull)"
      using kc by (simp add: loadPending_absent)
    have d: "fst (loadPending e (s(k := None)) ''pendingContractRequest'') k = (s(k := None)) k"
      using kc by (intro loadPending_keeps) simp
    show ?thesis
      using False a b d
      by (auto simp add: loadInitialData_split split: prod.splits)
  next
    assume kc: "k = ''pendingContractRequest''"
    obtain s1 c where p: "loadPending e s ''pendingConnectionRequest'' = (s1, c)"
      by (cases "loadPending e s ''pendingConnectionRequest''")
    have s1k: "s1 k = Some (JStr str)"
      using loadPending_keeps[of k "''pendingConnectionRequest''" e s] p kc entry by simp
    have a: "loadPending e (s(k := None)) ''pendingConnectionRequest'' = (s1(k := None), c)"
      using loadPending_other[of k "''pendingConnectionRequest''" e s] p kc by simp
    have b: "loadPending e s1 k = (s1(k := None), JNull)"
      using loadPending_corrupted[of s1 k str e, OF s1k False bad] .
    have b': "loadPending e (s1(k := None)) k = (s1(k := None), JNull)"
      by (simp add: loadPending_absent)
    show ?thesis
      using False p a b b' kc
      by (simp add: loadInitialData_split)
  qed
qed

lemma demo_parse_corrupted: \<open>JSON_parse demo_env ''{"origin":'' = None\<close>
  by (simp add: demo_simps)

text \<open>
  The truncated contract request is removed on mount, and the popup shows the dashboard
  as it does for the same store without the request.
\<close>

theorem corrupted_pending_request_witness:
  "fst (loadInitialData demo_env corrupted_store) ''pendingContractRequest'' = None
   \<and> loadInitialData demo_env corrupted_store = loadInitialData demo_env unlocked_store
   \<and> PopupApp_render (snd (loadInitialData demo_env corrupted_store)) = WalletDashboard demo_wallet"
proof -
  have k: "''pendingContractRequest'' = ''pendingConnectionRequest''
            \<or> ''pendingContractRequest'' = ''pendingContractRequest''" by simp
  have e: \<open>corrupted_store ''pendingContractRequest'' = Some (JStr ''{"origin":'')\<close>
    by (simp add: corrupted_store_def)
  have u: "corrupted_store(''pendingContractRequest'' := None) = unlocked_store"
    by (simp add: corrupted_store_def unlocked_store_def locked_store_def fun_upd_twist)
  have r: "PopupApp_render (snd (loadInitialData demo_env unlocked_store)) = WalletDashboard demo_wallet"
    by (simp add: loadInitialData_def loadPending_def store_simps demo_simps
      PopupApp_render_def PopupApp_initial_def shouldShowUnlockScreen_def popup_loadWallets_def
      selectActive_def demo_wallet_def Let_def)
  from corrupted_pending_request[of "''pendingContractRequest''" corrupted_store _ demo_env, OF k e demo_parse_corrupted] u r
  show ?thesis by auto
qed

text \<open>
  C9, as the spec states it, fails on the empty string: it does not parse as JSON, and
  the mount leaves it in the store.
\<close>

theorem corrupted_pending_request_counterexample:
  "blank_store ''pendingConnectionRequest'' = Some (JStr [])
   \<and> JSON_parse demo_env [] = None
   \<and> fst (loadInitialData demo_env blank_store) ''pendingConnectionRequest'' = Some (JStr [])"
  by (simp add: loadInitialData_def loadPending_def blank_store_def store_simps demo_simps
      shouldShowUnlockScreen_def Let_def split: prod.splits)

end
